theory Spec2Isabelle
  imports Complex_Main
begin

section \<open>The environment of a timer\<close>

text \<open>
  The module \<^verbatim>\<open>simpletimer.py\<close> reads the wall clock with \<^verbatim>\<open>time.time()\<close> and writes
  with \<^verbatim>\<open>print(..., end='')\<close>. Both are made explicit as a world that every operation
  receives and returns. A time sample is a Python float; every finite float is a
  rational number, so samples are modelled by their exact rational values and the
  subtraction of two samples is exact (the rounding of the float subtraction is not
  modelled).
\<close>

type_synonym time = rat

record world =
  now :: time
  stdout :: string

datatype exn =
  RuntimeError string
  | KeyError string
  | IndexError string
  | ValueError string
  | Exception string

type_synonym 'a result = "exn + 'a"

definition time_time :: "world \<Rightarrow> time" where
  "time_time w = now w"

text \<open>\<^verbatim>\<open>print(s, end='')\<close>: the string and nothing after it.\<close>

definition print_end :: "string \<Rightarrow> world \<Rightarrow> world" where
  "print_end s w = w\<lparr>stdout := stdout w @ s\<rparr>"

text \<open>Time passing between two calls (the caller sleeps or computes for \<open>d\<close> seconds).\<close>

definition advance :: "time \<Rightarrow> world \<Rightarrow> world" where
  "advance d w = w\<lparr>now := now w + d\<rparr>"

text \<open>
  A zero-argument callable supplied by the caller: it may block (the clock moves), write,
  and either return or raise. It is given no access to the timer; a barrier that
  reaches the timer it belongs to is a \<open>closure\<close>, further down.
\<close>

type_synonym callable = "world \<Rightarrow> unit result \<times> world"

text \<open>
  \<^verbatim>\<open>str.format(elapsed=x)\<close> is a function of the template and of the float: it returns the
  formatted string or raises.
\<close>

type_synonym formatter = "string \<Rightarrow> time \<Rightarrow> string result"

section \<open>The class TicToc\<close>

text \<open>
  The attributes \<^verbatim>\<open>start_time\<close> and \<^verbatim>\<open>end_time\<close> exist or not (\<^verbatim>\<open>hasattr\<close>, \<^verbatim>\<open>del\<close>):
  an absent attribute is \<open>None\<close>. The message is a string or Python's \<^verbatim>\<open>None\<close>.
\<close>

record TicToc =
  msg :: "string option"
  barrier :: "callable option"
  start_time :: "time option"
  end_time :: "time option"

definition default_msg :: string where
  "default_msg = ''Elapsed time is {elapsed:f} seconds.\<newline>''"

definition dunder_init :: "string option \<Rightarrow> callable option \<Rightarrow> TicToc" where
  "dunder_init m b = \<lparr>msg = m, barrier = b, start_time = None, end_time = None\<rparr>"

text \<open>\<^verbatim>\<open>TicToc()\<close> with both default arguments.\<close>

definition new_default :: TicToc where
  "new_default = dunder_init (Some default_msg) None"

definition is_started :: "TicToc \<Rightarrow> bool" where
  "is_started t = (start_time t \<noteq> None)"

definition is_ended :: "TicToc \<Rightarrow> bool" where
  "is_ended t = (end_time t \<noteq> None)"

definition reset :: "TicToc \<Rightarrow> TicToc" where
  "reset t =
     (let t1 = (if start_time t \<noteq> None then t\<lparr>start_time := None\<rparr> else t);
          t2 = (if end_time t1 \<noteq> None then t1\<lparr>end_time := None\<rparr> else t1)
      in t2)"

text \<open>\<^verbatim>\<open>if self._barrier is not None: self._barrier()\<close>\<close>

definition call_barrier :: "TicToc \<Rightarrow> world \<Rightarrow> unit result \<times> world" where
  "call_barrier t w = (case barrier t of None \<Rightarrow> (Inr (), w) | Some b \<Rightarrow> b w)"

definition not_started :: exn where
  "not_started = RuntimeError ''Timer not yet started.''"

definition tic :: "TicToc \<Rightarrow> world \<Rightarrow> unit result \<times> TicToc \<times> world" where
  "tic t w =
     (let t1 = reset t in
      case call_barrier t1 w of
        (Inl e, w1) \<Rightarrow> (Inl e, t1, w1)
      | (Inr u, w1) \<Rightarrow> (Inr (), t1\<lparr>start_time := Some (time_time w1)\<rparr>, w1))"

definition elapsed :: "TicToc \<Rightarrow> world \<Rightarrow> time result" where
  "elapsed t w =
     (if \<not> is_started t then Inl not_started
      else if is_ended t then Inr (the (end_time t) - the (start_time t))
      else Inr (time_time w - the (start_time t)))"

definition toc :: "formatter \<Rightarrow> TicToc \<Rightarrow> world \<Rightarrow> unit result \<times> TicToc \<times> world" where
  "toc fmt t w =
     (if \<not> is_started t then (Inl not_started, t, w)
      else
        case call_barrier t w of
          (Inl e, w1) \<Rightarrow> (Inl e, t, w1)
        | (Inr u, w1) \<Rightarrow>
            (let t1 = t\<lparr>end_time := Some (time_time w1)\<rparr> in
             case msg t1 of
               None \<Rightarrow> (Inr (), t1, w1)
             | Some m \<Rightarrow>
                 if m = [] then (Inr (), t1, w1)
                 else
                   (case elapsed t1 w1 of
                      Inl e \<Rightarrow> (Inl e, t1, w1)
                    | Inr x \<Rightarrow>
                        (case fmt m x of
                           Inl e \<Rightarrow> (Inl e, t1, w1)
                         | Inr s \<Rightarrow> (Inr (), t1, print_end s w1)))))"

definition dunder_float :: "TicToc \<Rightarrow> world \<Rightarrow> time result" where
  "dunder_float t w = elapsed t w"

text \<open>\<^verbatim>\<open>s.rstrip(c)\<close> for a single character \<open>c\<close>.\<close>

definition rstrip :: "char \<Rightarrow> string \<Rightarrow> string" where
  "rstrip c s = rev (dropWhile (\<lambda>d. d = c) (rev s))"

definition dunder_str :: "formatter \<Rightarrow> TicToc \<Rightarrow> world \<Rightarrow> string result" where
  "dunder_str fmt t w =
     (if is_started t then
        (case elapsed t w of
           Inl e \<Rightarrow> Inl e
         | Inr x \<Rightarrow>
             (case fmt default_msg x of
                Inl e \<Rightarrow> Inl e
              | Inr s \<Rightarrow> Inr (rstrip CHR ''\<newline>'' s)))
      else Inr ''Timer not yet started.'')"

text \<open>
  \<^verbatim>\<open>__enter__\<close> returns \<^verbatim>\<open>self\<close>, which is the timer handed on. \<^verbatim>\<open>__exit__\<close> returns
  \<^verbatim>\<open>None\<close>; what the with statement looks at is the truth value of the result, here
  \<open>False\<close>.
\<close>

definition dunder_enter :: "TicToc \<Rightarrow> world \<Rightarrow> unit result \<times> TicToc \<times> world" where
  "dunder_enter t w = tic t w"

definition dunder_exit ::
  "formatter \<Rightarrow> TicToc \<Rightarrow> exn option \<Rightarrow> world \<Rightarrow> bool result \<times> TicToc \<times> world" where
  "dunder_exit fmt t exc w =
     (case toc fmt t w of
        (Inl e, t1, w1) \<Rightarrow> (Inl e, t1, w1)
      | (Inr u, t1, w1) \<Rightarrow> (Inr False, t1, w1))"

section \<open>The with statement\<close>

text \<open>
  Python's \<^verbatim>\<open>with t: body\<close>: \<^verbatim>\<open>__enter__\<close> runs first, and when it raises neither the
  body nor \<^verbatim>\<open>__exit__\<close> runs. Otherwise the body runs and \<^verbatim>\<open>__exit__\<close> is called on
  the way out, with the body's exception if it raised. An exception raised by
  \<^verbatim>\<open>__exit__\<close> replaces the body's; a true result of \<^verbatim>\<open>__exit__\<close> suppresses it.
  The body may use the timer (\<^verbatim>\<open>with TicToc() as t\<close>), so it receives and returns it.
\<close>

type_synonym block = "TicToc \<Rightarrow> world \<Rightarrow> unit result \<times> TicToc \<times> world"

definition with_stmt ::
  "formatter \<Rightarrow> TicToc \<Rightarrow> block \<Rightarrow> world \<Rightarrow> unit result \<times> TicToc \<times> world" where
  "with_stmt fmt t body w =
     (case dunder_enter t w of
        (Inl e, t1, w1) \<Rightarrow> (Inl e, t1, w1)
      | (Inr u, t1, w1) \<Rightarrow>
          (case body t1 w1 of
             (Inr v, t2, w2) \<Rightarrow>
               (case dunder_exit fmt t2 None w2 of
                  (Inl e, t3, w3) \<Rightarrow> (Inl e, t3, w3)
                | (Inr b, t3, w3) \<Rightarrow> (Inr (), t3, w3))
           | (Inl eb, t2, w2) \<Rightarrow>
               (case dunder_exit fmt t2 (Some eb) w2 of
                  (Inl e, t3, w3) \<Rightarrow> (Inl e, t3, w3)
                | (Inr b, t3, w3) \<Rightarrow>
                    if b then (Inr (), t3, w3) else (Inl eb, t3, w3))))"

section \<open>The module-level timer\<close>

text \<open>
  The module creates \<^verbatim>\<open>_tictoc = TicToc()\<close> when it is loaded and binds \<^verbatim>\<open>tic\<close> and
  \<^verbatim>\<open>toc\<close> to the two bound methods of that object. The state of the module is that one
  object.
\<close>

record module =
  tictoc :: TicToc

definition module_load :: module where
  "module_load = \<lparr>tictoc = new_default\<rparr>"

definition module_tic :: "module \<Rightarrow> world \<Rightarrow> unit result \<times> module \<times> world" where
  "module_tic m w = (case tic (tictoc m) w of (r, t1, w1) \<Rightarrow> (r, m\<lparr>tictoc := t1\<rparr>, w1))"

definition module_toc :: "formatter \<Rightarrow> module \<Rightarrow> world \<Rightarrow> unit result \<times> module \<times> world" where
  "module_toc fmt m w =
     (case toc fmt (tictoc m) w of (r, t1, w1) \<Rightarrow> (r, m\<lparr>tictoc := t1\<rparr>, w1))"

section \<open>Barriers that reach the timer\<close>

text \<open>
  The barrier is any callable, and it may be a closure over the timer it is given to, as
  in \<^verbatim>\<open>t = TicToc(barrier=lambda: t.reset())\<close>. A field of the record cannot hold a
  function of the record, so such a barrier is kept beside the timer: it receives the
  timer and the world and returns both, and stands for \<^verbatim>\<open>self._barrier\<close> (the field
  \<open>barrier\<close> is not consulted). \<open>tic\<close> and \<open>toc\<close> are written again for it, line for
  line; after the barrier they go on with the timer as the barrier left it.
\<close>

type_synonym closure = "TicToc \<Rightarrow> world \<Rightarrow> unit result \<times> TicToc \<times> world"

definition call_closure ::
  "closure option \<Rightarrow> TicToc \<Rightarrow> world \<Rightarrow> unit result \<times> TicToc \<times> world" where
  "call_closure c t w = (case c of None \<Rightarrow> (Inr (), t, w) | Some f \<Rightarrow> f t w)"

definition tic_closure ::
  "closure option \<Rightarrow> TicToc \<Rightarrow> world \<Rightarrow> unit result \<times> TicToc \<times> world" where
  "tic_closure c t w =
     (let t1 = reset t in
      case call_closure c t1 w of
        (Inl e, t2, w1) \<Rightarrow> (Inl e, t2, w1)
      | (Inr u, t2, w1) \<Rightarrow> (Inr (), t2\<lparr>start_time := Some (time_time w1)\<rparr>, w1))"

definition toc_closure ::
  "formatter \<Rightarrow> closure option \<Rightarrow> TicToc \<Rightarrow> world \<Rightarrow> unit result \<times> TicToc \<times> world" where
  "toc_closure fmt c t w =
     (if \<not> is_started t then (Inl not_started, t, w)
      else
        case call_closure c t w of
          (Inl e, t1, w1) \<Rightarrow> (Inl e, t1, w1)
        | (Inr u, t1, w1) \<Rightarrow>
            (let t2 = t1\<lparr>end_time := Some (time_time w1)\<rparr> in
             case msg t2 of
               None \<Rightarrow> (Inr (), t2, w1)
             | Some m \<Rightarrow>
                 if m = [] then (Inr (), t2, w1)
                 else
                   (case elapsed t2 w1 of
                      Inl e \<Rightarrow> (Inl e, t2, w1)
                    | Inr x \<Rightarrow>
                        (case fmt m x of
                           Inl e \<Rightarrow> (Inl e, t2, w1)
                         | Inr s \<Rightarrow> (Inr (), t2, print_end s w1)))))"

text \<open>A callable that has no access to the timer, as a closure: the timer goes through.\<close>

definition lift_barrier :: "callable \<Rightarrow> closure" where
  "lift_barrier b t w = (case b w of (r, w1) \<Rightarrow> (r, t, w1))"

section \<open>Sequences of calls\<close>

text \<open>
  The methods and properties of the class, and time passing between two calls. A call
  that raises leaves the state it had reached; the caller goes on from there.
  \<^verbatim>\<open>__enter__\<close> is a call of \<open>tic\<close> and \<^verbatim>\<open>__exit__\<close> a call of \<open>toc\<close>; the properties
  and the two conversions assign nothing.
\<close>

datatype call =
  Reset | Tic | Toc | Is_started | Is_ended | Elapsed | Float | Str | Enter | Exit

datatype event = Call call | Pass time

fun step ::
  "formatter \<Rightarrow> closure option \<Rightarrow> event \<Rightarrow> TicToc \<times> world \<Rightarrow> TicToc \<times> world" where
  "step fmt c (Pass d) (t, w) = (t, advance d w)"
| "step fmt c (Call Reset) (t, w) = (reset t, w)"
| "step fmt c (Call Tic) (t, w) = snd (tic_closure c t w)"
| "step fmt c (Call Toc) (t, w) = snd (toc_closure fmt c t w)"
| "step fmt c (Call Enter) (t, w) = snd (tic_closure c t w)"
| "step fmt c (Call Exit) (t, w) = snd (toc_closure fmt c t w)"
| "step fmt c (Call q) (t, w) = (t, w)"

fun run ::
  "formatter \<Rightarrow> closure option \<Rightarrow> event list \<Rightarrow> TicToc \<times> world \<Rightarrow> TicToc \<times> world" where
  "run fmt c [] s = s"
| "run fmt c (ev # evs) s = run fmt c evs (step fmt c ev s)"

text \<open>The wall clock never goes back: neither between two calls nor inside the barrier.\<close>

fun forward :: "event \<Rightarrow> bool" where
  "forward (Pass d) = (0 \<le> d)"
| "forward (Call q) = True"

definition keeps_clock :: "closure option \<Rightarrow> bool" where
  "keeps_clock c =
     (case c of None \<Rightarrow> True | Some f \<Rightarrow> (\<forall>t w. now w \<le> now (snd (snd (f t w)))))"

text \<open>The barrier leaves the two samples of the timer as they are.\<close>

definition keeps_samples :: "closure option \<Rightarrow> bool" where
  "keeps_samples c =
     (case c of
        None \<Rightarrow> True
      | Some f \<Rightarrow>
          (\<forall>t w. start_time (fst (snd (f t w))) = start_time t \<and>
                 end_time (fst (snd (f t w))) = end_time t))"

section \<open>A model of str.format for the templates of this module\<close>

text \<open>
  Python's \<^verbatim>\<open>str.format\<close> is modelled for templates made of literal text, the escapes
  \<^verbatim>\<open>{{\<close> and \<^verbatim>\<open>}}\<close>, and fields \<^verbatim>\<open>{elapsed:[width][.precision]f}\<close> with a width and a
  precision of at most three digits. Both templates of the module are of this kind.
  The presentation type \<^verbatim>\<open>f\<close> writes the value correctly rounded (ties to even) to
  \<open>precision\<close> decimals, six when none is given, and right-aligns it in \<open>width\<close>
  columns. For any other template the result is left to a parameter \<open>other\<close>.
\<close>

definition digit_char :: "nat \<Rightarrow> char" where
  "digit_char d = ''0123456789'' ! d"

fun digits :: "nat \<Rightarrow> string" where
  "digits n = (if n < 10 then [digit_char n] else digits (n div 10) @ [digit_char (n mod 10)])"

declare digits.simps [simp del]

definition pad_left :: "char \<Rightarrow> nat \<Rightarrow> string \<Rightarrow> string" where
  "pad_left c n s = replicate (n - length s) c @ s"

definition round_half_even :: "rat \<Rightarrow> int" where
  "round_half_even q =
     (let f = \<lfloor>q\<rfloor>; d = q - of_int f in
      if d < 1 / 2 then f else if 1 / 2 < d then f + 1 else if even f then f else f + 1)"

definition format_f :: "nat option \<Rightarrow> nat option \<Rightarrow> rat \<Rightarrow> string" where
  "format_f width prec x =
     (let p = (case prec of None \<Rightarrow> 6 | Some p \<Rightarrow> p);
          n = nat (round_half_even (\<bar>x\<bar> * 10 ^ p));
          ip = digits (n div 10 ^ p);
          fp = (if p = 0 then [] else ''.'' @ pad_left CHR ''0'' p (digits (n mod 10 ^ p)));
          sign = (if x < 0 then ''-'' else [])
      in pad_left CHR '' '' (case width of None \<Rightarrow> 0 | Some n \<Rightarrow> n) (sign @ ip @ fp))"

datatype piece = Lit char | Elapsed_f "nat option" "nat option"

definition digit_val :: "char \<Rightarrow> nat option" where
  "digit_val c =
     map_of [(CHR ''0'', 0), (CHR ''1'', 1), (CHR ''2'', 2), (CHR ''3'', 3), (CHR ''4'', 4),
             (CHR ''5'', 5), (CHR ''6'', 6), (CHR ''7'', 7), (CHR ''8'', 8), (CHR ''9'', 9)] c"

fun parse_digits :: "nat \<Rightarrow> string \<Rightarrow> nat option" where
  "parse_digits acc [] = Some acc"
| "parse_digits acc (c # cs) =
     (case digit_val c of None \<Rightarrow> None | Some d \<Rightarrow> parse_digits (10 * acc + d) cs)"

definition parse_nat :: "string \<Rightarrow> nat option" where
  "parse_nat ds = (if ds = [] \<or> 3 < length ds then None else parse_digits 0 ds)"

definition parse_spec :: "string \<Rightarrow> piece option" where
  "parse_spec s =
     (if s = [] \<or> last s \<noteq> CHR ''f'' then None
      else
        let body = butlast s;
            wd = takeWhile (\<lambda>c. c \<noteq> CHR ''.'') body;
            rest = dropWhile (\<lambda>c. c \<noteq> CHR ''.'') body;
            width = (if wd = [] then Some None
                     else if hd wd = CHR ''0'' then None
                     else map_option Some (parse_nat wd));
            prec = (if rest = [] then Some None else map_option Some (parse_nat (tl rest)))
        in case (width, prec) of
             (Some wo, Some po) \<Rightarrow> Some (Elapsed_f wo po)
           | _ \<Rightarrow> None)"

definition parse_field :: "string \<Rightarrow> piece option" where
  "parse_field f = (if take 8 f = ''elapsed:'' then parse_spec (drop 8 f) else None)"

text \<open>
  The scanner: its first argument is \<open>None\<close> in literal text and \<open>Some f\<close> inside a
  field of which \<open>f\<close> has been read.
\<close>

fun scan :: "string option \<Rightarrow> string \<Rightarrow> piece list option" where
  "scan None [] = Some []"
| "scan (Some f) [] = None"
| "scan None (c # cs) =
     (if c = CHR ''{'' then
        (case cs of
           [] \<Rightarrow> None
         | d # ds \<Rightarrow>
             if d = CHR ''{'' then map_option ((#) (Lit CHR ''{'')) (scan None ds)
             else scan (Some []) cs)
      else if c = CHR ''}'' then
        (case cs of
           [] \<Rightarrow> None
         | d # ds \<Rightarrow>
             if d = CHR ''}'' then map_option ((#) (Lit CHR ''}'')) (scan None ds)
             else None)
      else map_option ((#) (Lit c)) (scan None cs))"
| "scan (Some f) (c # cs) =
     (if c = CHR ''}'' then
        (case parse_field f of
           None \<Rightarrow> None
         | Some p \<Rightarrow> map_option ((#) p) (scan None cs))
      else if c = CHR ''{'' then None
      else scan (Some (f @ [c])) cs)"

fun render :: "piece list \<Rightarrow> rat \<Rightarrow> string" where
  "render [] x = []"
| "render (Lit c # ps) x = c # render ps x"
| "render (Elapsed_f wo po # ps) x = format_f wo po x @ render ps x"

definition str_format :: "formatter \<Rightarrow> formatter" where
  "str_format other m x =
     (case scan None m of Some ps \<Rightarrow> Inr (render ps x) | None \<Rightarrow> other m x)"

section \<open>Sessions through the module and through an object of one's own\<close>

text \<open>
  A measurement with the functions of the module, from the freshly loaded module: start,
  \<open>d\<close> seconds pass, stop. The result is what the two calls returned, the timer and the
  world they left.
\<close>

definition convenience_session ::
  "formatter \<Rightarrow> time \<Rightarrow> world \<Rightarrow> unit result \<times> unit result \<times> TicToc \<times> world" where
  "convenience_session fmt d w =
     (case module_tic module_load w of
        (r1, m1, w1) \<Rightarrow>
          (case module_toc fmt m1 (advance d w1) of
             (r2, m2, w2) \<Rightarrow> (r1, r2, tictoc m2, w2)))"

text \<open>
  The same measurement as the specification words it: a timer constructed with the
  default template and no barrier, its start, \<open>d\<close> seconds, its stop.
\<close>

definition explicit_session ::
  "formatter \<Rightarrow> time \<Rightarrow> world \<Rightarrow> unit result \<times> unit result \<times> TicToc \<times> world" where
  "explicit_session fmt d w =
     (case tic (dunder_init (Some ''Elapsed time is {elapsed:f} seconds.\<newline>'') None) w of
        (r1, t1, w1) \<Rightarrow>
          (case toc fmt t1 (advance d w1) of
             (r2, t2, w2) \<Rightarrow> (r1, r2, t2, w2)))"

section \<open>The order of the two samples\<close>

definition sample_order :: "TicToc \<Rightarrow> bool" where
  "sample_order t =
     (case end_time t of
        None \<Rightarrow> True
      | Some e \<Rightarrow> (case start_time t of None \<Rightarrow> False | Some s \<Rightarrow> s \<le> e))"

text \<open>No sample lies in the future of the clock.\<close>

definition samples_past :: "TicToc \<Rightarrow> world \<Rightarrow> bool" where
  "samples_past t w =
     ((case start_time t of None \<Rightarrow> True | Some s \<Rightarrow> s \<le> now w) \<and>
      (case end_time t of None \<Rightarrow> True | Some e \<Rightarrow> e \<le> now w))"

section \<open>Callables, blocks and a formatter for concrete runs\<close>

text \<open>The model of \<^verbatim>\<open>str.format\<close>, with a \<^verbatim>\<open>ValueError\<close> outside the templates it covers.\<close>

definition example_format :: formatter where
  "example_format = str_format (\<lambda>m x. Inl (ValueError ''template outside the model''))"

text \<open>A barrier that always raises, one that waits a second, and one that works only
  before the clock reaches 1.\<close>

definition failing_barrier :: callable where
  "failing_barrier w = (Inl (Exception ''barrier''), w)"

definition waiting_barrier :: callable where
  "waiting_barrier w = (Inr (), advance 1 w)"

definition failing_late :: callable where
  "failing_late w = (if now w < 1 then (Inr (), w) else (Inl (Exception ''barrier''), w))"

text \<open>The barrier of \<^verbatim>\<open>t = TicToc(barrier=lambda: t.reset())\<close>.\<close>

definition resetting_barrier :: closure where
  "resetting_barrier t w = (Inr (), reset t, w)"

text \<open>A block that takes two seconds and raises.\<close>

definition raising_block :: block where
  "raising_block t w = (Inl (ValueError ''block''), t, advance 2 w)"

section \<open>What a run keeps true\<close>

text \<open>
  The property carried along a run: the samples are in order and none is in the future.
\<close>

definition timer_inv :: "TicToc \<times> world \<Rightarrow> bool" where
  "timer_inv s = (sample_order (fst s) \<and> samples_past (fst s) (snd s))"

section \<open>Basic facts about the operations\<close>

lemma reset_eq: "reset t = t\<lparr>start_time := None, end_time := None\<rparr>"
  by (cases t) (simp add: reset_def Let_def)




lemma toc_idle: "start_time t = None \<Longrightarrow> toc fmt t w = (Inl not_started, t, w)"
  by (simp add: toc_def is_started_def)


lemma toc_Inr:
  assumes "toc fmt t w = (Inr u, t1, w1)"
  shows "\<exists>s0 wb. start_time t = Some s0 \<and> call_barrier t w = (Inr (), wb) \<and>
           t1 = t\<lparr>end_time := Some (now wb)\<rparr> \<and>
           (case msg t of
              None \<Rightarrow> w1 = wb
            | Some m \<Rightarrow>
                if m = [] then w1 = wb
                else (\<exists>s. fmt m (now wb - s0) = Inr s \<and> w1 = wb\<lparr>stdout := stdout wb @ s\<rparr>))"
  using assms
  by (auto simp: toc_def is_started_def Let_def elapsed_def is_started_def is_ended_def time_time_def print_end_def
      split: if_splits prod.splits sum.splits option.splits)

lemma with_stmt_cases:
  assumes "tic t w = (Inr (), t1, w1)" and "body t1 w1 = (rb, t2, w2)"
    and "toc fmt t2 w2 = (rs, t3, w3)"
  shows "with_stmt fmt t body w = ((case rs of Inl e \<Rightarrow> Inl e | Inr u \<Rightarrow> rb), t3, w3)"
  using assms
  by (cases rb; cases rs) (simp_all add: with_stmt_def dunder_enter_def dunder_exit_def)

subsection \<open>The two templates of the module\<close>

lemma rstrip_newline: "d \<noteq> c \<Longrightarrow> rstrip c (xs @ [d, c]) = xs @ [d]"
  by (simp add: rstrip_def)

lemma render_append: "render (ps @ qs) x = render ps x @ render qs x"
  by (induction ps x rule: render.induct) simp_all

lemma render_Lit: "render (map Lit cs) x = cs"
  by (induction cs) simp_all

lemma scan_default_msg:
  "scan None default_msg =
   Some (map Lit ''Elapsed time is '' @ [Elapsed_f None None] @ map Lit '' seconds.\<newline>'')"
  by (simp add: default_msg_def parse_field_def parse_spec_def)

lemma str_format_default_msg:
  "str_format other default_msg x =
   Inr (''Elapsed time is '' @ format_f None None x @ '' seconds.\<newline>'')"
  unfolding str_format_def scan_default_msg
  by (simp only: option.case render_append render_Lit render.simps append_Nil2 append_Nil
      append_Cons)

lemma scan_width_template:
  "scan None ''{elapsed:7.3f}\<newline>'' =
   Some [Elapsed_f (Some 7) (Some 3), Lit CHR ''\<newline>'']"
  by code_simp

lemma str_format_width_template:
  "str_format other ''{elapsed:7.3f}\<newline>'' x =
   Inr (format_f (Some 7) (Some 3) x @ ''\<newline>'')"
  unfolding str_format_def scan_width_template by simp

lemma format_f_2002: "format_f (Some 7) (Some 3) (1001 / 500) = ''  2.002''"
  by code_simp

text \<open>The float nearest to 2.002 is \<open>2254051613498933 / 2 ^ 50\<close>.\<close>

lemma format_f_2002_float:
  "format_f (Some 7) (Some 3) (2254051613498933 / 1125899906842624) = ''  2.002''"
  by code_simp

lemma round_half_even_int: "round_half_even (of_int k) = k"
  by (simp add: round_half_even_def)

lemma digits_small: "n < 10 \<Longrightarrow> digits n = [digit_char n]"
  by (simp add: digits.simps)

lemma replicate_five: "replicate 5 c = [c, c, c, c, c]"
  by (simp add: numeral_eq_Suc)

lemma format_f_two: "format_f None None 2 = ''2.000000''"
proof -
  have "round_half_even 2000000 = 2000000"
    using round_half_even_int [of 2000000] by simp
  then show ?thesis
    by (simp add: format_f_def digits_small digit_char_def pad_left_def Let_def
        replicate_five)
qed

lemma format_f_three: "format_f None None 3 = ''3.000000''"
proof -
  have "round_half_even 3000000 = 3000000"
    using round_half_even_int [of 3000000] by simp
  then show ?thesis
    by (simp add: format_f_def digits_small digit_char_def pad_left_def Let_def
        replicate_five)
qed

subsection \<open>Barriers beside the timer\<close>

text \<open>For a barrier without access to the timer the two ways of writing \<open>tic\<close> and \<open>toc\<close>
  agree.\<close>

lemma tic_closure_lift: "tic_closure (map_option lift_barrier (barrier t)) t w = tic t w"
  by (cases "barrier t")
    (simp_all add: tic_closure_def tic_def call_closure_def call_barrier_def lift_barrier_def
      reset_eq split: prod.splits sum.splits)

lemma toc_closure_lift:
  "toc_closure fmt (map_option lift_barrier (barrier t)) t w = toc fmt t w"
  by (cases "barrier t")
    (simp_all add: toc_closure_def toc_def call_closure_def call_barrier_def lift_barrier_def
      Let_def split: prod.splits sum.splits option.splits)

lemma call_closure_keeps:
  assumes "keeps_clock c" and "keeps_samples c" and "call_closure c t w = (r, t1, w1)"
  shows "now w \<le> now w1 \<and> start_time t1 = start_time t \<and> end_time t1 = end_time t"
proof (cases c)
  case None
  with assms(3) show ?thesis by (simp add: call_closure_def)
next
  case (Some f)
  with assms(3) have f: "f t w = (r, t1, w1)"
    by (simp add: call_closure_def)
  from assms(1) Some have "now w \<le> now (snd (snd (f t w)))"
    by (simp add: keeps_clock_def)
  moreover from assms(2) Some have
    "start_time (fst (snd (f t w))) = start_time t \<and> end_time (fst (snd (f t w))) = end_time t"
    by (simp add: keeps_samples_def)
  ultimately show ?thesis using f by simp
qed

lemma tic_closure_Inr:
  assumes "tic_closure c t w = (Inr u, t2, w2)"
  shows "\<exists>t1. call_closure c (reset t) w = (Inr (), t1, w2) \<and>
           t2 = t1\<lparr>start_time := Some (now w2)\<rparr>"
  using assms
  by (auto simp: tic_closure_def Let_def time_time_def split: prod.splits sum.splits)

lemma toc_closure_Inr:
  assumes "toc_closure fmt c t w = (Inr u, t3, w3)"
  shows "\<exists>t1 wb. is_started t \<and> call_closure c t w = (Inr (), t1, wb) \<and>
           t3 = t1\<lparr>end_time := Some (now wb)\<rparr>"
  using assms
  by (auto simp: toc_closure_def Let_def time_time_def
      split: if_splits prod.splits sum.splits option.splits)

subsection \<open>Runs\<close>

lemma tic_closure_inv:
  assumes "keeps_clock c" and "keeps_samples c"
  shows "timer_inv (snd (tic_closure c t w))"
proof -
  obtain r t1 w1 where cb: "call_closure c (reset t) w = (r, t1, w1)"
    by (cases "call_closure c (reset t) w")
  from call_closure_keeps [OF assms cb]
  have k: "start_time t1 = None" "end_time t1 = None"
    by (simp_all add: reset_eq)
  show ?thesis
  proof (cases r)
    case (Inl e)
    with cb k show ?thesis
      by (simp add: tic_closure_def timer_inv_def sample_order_def samples_past_def)
  next
    case (Inr u)
    with cb k show ?thesis
      by (simp add: tic_closure_def timer_inv_def sample_order_def samples_past_def
          time_time_def)
  qed
qed

lemma toc_closure_inv:
  assumes "keeps_clock c" and "keeps_samples c" and "timer_inv (t, w)"
  shows "timer_inv (snd (toc_closure fmt c t w))"
proof (cases "start_time t")
  case None
  with assms(3) show ?thesis by (simp add: toc_closure_def is_started_def)
next
  case (Some s)
  obtain r t1 w1 where cb: "call_closure c t w = (r, t1, w1)"
    by (cases "call_closure c t w")
  from call_closure_keeps [OF assms(1,2) cb]
  have k: "now w \<le> now w1" "start_time t1 = start_time t" "end_time t1 = end_time t"
    by simp_all
  from assms(3) Some have s: "s \<le> now w"
    by (simp add: timer_inv_def samples_past_def)
  show ?thesis
  proof (cases r)
    case (Inl e)
    with cb Some k assms(3) show ?thesis
      by (auto simp: toc_closure_def is_started_def timer_inv_def sample_order_def
          samples_past_def split: option.splits)
  next
    case (Inr u)
    with cb Some k s show ?thesis
      by (auto simp: toc_closure_def is_started_def Let_def timer_inv_def sample_order_def
          samples_past_def time_time_def print_end_def
          split: option.splits sum.splits)
  qed
qed

lemma step_inv:
  assumes "keeps_clock c" and "keeps_samples c" and "timer_inv s" and "forward ev"
  shows "timer_inv (step fmt c ev s)"
proof (cases s)
  case (Pair t w)
  show ?thesis
  proof (cases ev)
    case (Pass d)
    with Pair assms(3,4) show ?thesis
      by (auto simp: timer_inv_def samples_past_def sample_order_def advance_def
          split: option.splits)
  next
    case (Call q)
    have r: "timer_inv (reset t, w)"
      by (simp add: reset_eq timer_inv_def sample_order_def samples_past_def)
    from Pair Call assms(3) r show ?thesis
      by (cases q)
        (simp_all add: tic_closure_inv [OF assms(1,2)] toc_closure_inv [OF assms(1,2)])
  qed
qed

lemma run_inv:
  "keeps_clock c \<Longrightarrow> keeps_samples c \<Longrightarrow> timer_inv s \<Longrightarrow> \<forall>ev\<in>set evs. forward ev \<Longrightarrow>
   timer_inv (run fmt c evs s)"
  by (induction evs arbitrary: s) (simp_all add: step_inv)

lemma init_inv: "timer_inv (dunder_init m b, w)"
  by (simp add: timer_inv_def dunder_init_def sample_order_def samples_past_def)

section \<open>The elapsed time\<close>

text \<open>
  C1. For a started timer the elapsed time comes from the stored samples. When both
  samples are present it is \<open>end_time - start_time\<close>, whatever the clock shows, so every
  query gives the same value. When only \<open>start_time\<close> is present it is the clock minus
  \<open>start_time\<close>, read anew at each query, so a later query never gives less.
\<close>

theorem elapsed_from_samples:
  assumes "start_time t = Some s"
  shows "(end_time t = Some e \<longrightarrow> (\<forall>w. elapsed t w = Inr (e - s))) \<and>
         (end_time t = None \<longrightarrow>
            elapsed t w = Inr (now w - s) \<and>
            (\<forall>w'. now w \<le> now w' \<longrightarrow>
               (\<exists>x x'. elapsed t w = Inr x \<and> elapsed t w' = Inr x' \<and> x \<le> x')))"
  using assms by (simp add: elapsed_def is_started_def is_ended_def time_time_def)

text \<open>A stopped timer with samples 3 and 5, and a running one started at 3, at clock 9.\<close>

theorem elapsed_from_samples_witness:
  "elapsed \<lparr>msg = None, barrier = None, start_time = Some 3, end_time = Some 5\<rparr>
     \<lparr>now = 9, stdout = []\<rparr> = Inr 2 \<and>
   elapsed \<lparr>msg = None, barrier = None, start_time = Some 3, end_time = None\<rparr>
     \<lparr>now = 9, stdout = []\<rparr> = Inr 6"
  using
    elapsed_from_samples [where s = 3 and e = 5 and w = "\<lparr>now = 9, stdout = []\<rparr>"
      and t = "\<lparr>msg = None, barrier = None, start_time = Some 3, end_time = Some 5\<rparr>"]
    elapsed_from_samples [where s = 3 and w = "\<lparr>now = 9, stdout = []\<rparr>"
      and t = "\<lparr>msg = None, barrier = None, start_time = Some 3, end_time = None\<rparr>"]
  by simp

section \<open>A timer that was not started\<close>

text \<open>
  C2. On a timer without \<open>start_time\<close> (fresh, or reset) the elapsed-time property, the
  conversion to a float and \<open>toc\<close> all raise \<open>RuntimeError\<close> with the message
  "Timer not yet started."; \<open>toc\<close> hands back the timer and the world as it got them (the
  barrier is not called, nothing is printed), and the two queries assign nothing.
\<close>

theorem idle_operations_fail:
  assumes "start_time t = None"
  shows "elapsed t w = Inl (RuntimeError ''Timer not yet started.'') \<and>
         dunder_float t w = Inl (RuntimeError ''Timer not yet started.'') \<and>
         toc fmt t w = (Inl (RuntimeError ''Timer not yet started.''), t, w)"
  using assms by (simp add: elapsed_def is_started_def is_ended_def dunder_float_def toc_idle not_started_def)

text \<open>A fresh timer with a barrier, and a stopped timer after \<open>reset\<close>.\<close>

theorem idle_operations_fail_witness:
  "toc example_format (dunder_init (Some default_msg) (Some waiting_barrier))
     \<lparr>now = 4, stdout = []\<rparr> =
   (Inl (RuntimeError ''Timer not yet started.''),
    dunder_init (Some default_msg) (Some waiting_barrier), \<lparr>now = 4, stdout = []\<rparr>) \<and>
   elapsed (reset \<lparr>msg = None, barrier = None, start_time = Some 3, end_time = Some 5\<rparr>)
     \<lparr>now = 4, stdout = []\<rparr> = Inl (RuntimeError ''Timer not yet started.'') \<and>
   dunder_float (reset \<lparr>msg = None, barrier = None, start_time = Some 3, end_time = Some 5\<rparr>)
     \<lparr>now = 4, stdout = []\<rparr> = Inl (RuntimeError ''Timer not yet started.'')"
  using
    idle_operations_fail [where fmt = example_format and w = "\<lparr>now = 4, stdout = []\<rparr>"
      and t = "dunder_init (Some default_msg) (Some waiting_barrier)"]
    idle_operations_fail [where fmt = example_format and w = "\<lparr>now = 4, stdout = []\<rparr>"
      and t = "reset \<lparr>msg = None, barrier = None, start_time = Some 3, end_time = Some 5\<rparr>"]
  by (simp add: dunder_init_def reset_eq)

section \<open>Starting\<close>



section \<open>A barrier that raises\<close>





section \<open>The report of toc\<close>

text \<open>
  C5. A \<open>toc\<close> that returns has called the barrier, stored the clock as \<open>end_time\<close>, and,
  when the template is a non-empty string, appended to standard output exactly the
  template formatted with the elapsed time \<open>end_time - start_time\<close>, with nothing after
  it; when the template is empty or \<open>None\<close> it has written nothing. With the template
  \<^verbatim>\<open>{elapsed:7.3f}\<close> followed by a newline and an elapsed time of 2.002 (the decimal
  number, or the float nearest to it) the output is two spaces, \<^verbatim>\<open>2.002\<close> and a newline.
\<close>

theorem toc_report:
  "(toc fmt t w = (Inr (), t1, w1) \<longrightarrow>
      (\<exists>s0 wb. start_time t = Some s0 \<and> call_barrier t w = (Inr (), wb) \<and>
         (\<forall>w'. elapsed t1 w' = Inr (now wb - s0)) \<and>
         (case msg t of
            None \<Rightarrow> w1 = wb
          | Some m \<Rightarrow>
              if m = [] then w1 = wb
              else (\<exists>s. fmt m (now wb - s0) = Inr s \<and> w1 = wb\<lparr>stdout := stdout wb @ s\<rparr>)))) \<and>
   (msg t = Some ''{elapsed:7.3f}\<newline>'' \<and> barrier t = None \<and> start_time t = Some s \<and>
    (now w - s = 1001 / 500 \<or> now w - s = 2254051613498933 / 1125899906842624) \<longrightarrow>
      toc (str_format other) t w =
        (Inr (), t\<lparr>end_time := Some (now w)\<rparr>, w\<lparr>stdout := stdout w @ ''  2.002\<newline>''\<rparr>))"
proof (intro conjI impI)
  assume a: "toc fmt t w = (Inr (), t1, w1)"
  from toc_Inr [OF a] obtain s0 wb where
    h: "start_time t = Some s0" "call_barrier t w = (Inr (), wb)"
       "t1 = t\<lparr>end_time := Some (now wb)\<rparr>"
       "case msg t of
          None \<Rightarrow> w1 = wb
        | Some m \<Rightarrow>
            if m = [] then w1 = wb
            else (\<exists>s. fmt m (now wb - s0) = Inr s \<and> w1 = wb\<lparr>stdout := stdout wb @ s\<rparr>)"
    by blast
  from h(1,3) have "elapsed t1 w' = Inr (now wb - s0)" for w'
    by (simp add: elapsed_def is_started_def is_ended_def)
  with h show "\<exists>s0 wb. start_time t = Some s0 \<and> call_barrier t w = (Inr (), wb) \<and>
         (\<forall>w'. elapsed t1 w' = Inr (now wb - s0)) \<and>
         (case msg t of
            None \<Rightarrow> w1 = wb
          | Some m \<Rightarrow>
              if m = [] then w1 = wb
              else (\<exists>s. fmt m (now wb - s0) = Inr s \<and> w1 = wb\<lparr>stdout := stdout wb @ s\<rparr>))"
    by blast
next
  assume b: "msg t = Some ''{elapsed:7.3f}\<newline>'' \<and> barrier t = None \<and> start_time t = Some s \<and>
    (now w - s = 1001 / 500 \<or> now w - s = 2254051613498933 / 1125899906842624)"
  then have "format_f (Some 7) (Some 3) (now w - s) = ''  2.002''"
    using format_f_2002 format_f_2002_float by metis
  with b show "toc (str_format other) t w =
        (Inr (), t\<lparr>end_time := Some (now w)\<rparr>, w\<lparr>stdout := stdout w @ ''  2.002\<newline>''\<rparr>)"
    by (simp add: toc_def is_started_def call_barrier_def Let_def elapsed_def is_started_def is_ended_def time_time_def
        print_end_def str_format_width_template)
qed

text \<open>
  A timer with the template of the docstring, started at 100 and stopped at 102.002: the
  second part gives the result of \<open>toc\<close>, and the first part, applied to that result, the
  string that was formatted.
\<close>

theorem toc_report_witness:
  "toc example_format
     \<lparr>msg = Some ''{elapsed:7.3f}\<newline>'', barrier = None, start_time = Some 100,
       end_time = None\<rparr>
     \<lparr>now = 51001 / 500, stdout = ''>''\<rparr> =
   (Inr (),
    \<lparr>msg = Some ''{elapsed:7.3f}\<newline>'', barrier = None, start_time = Some 100,
      end_time = Some (51001 / 500)\<rparr>,
    \<lparr>now = 51001 / 500, stdout = ''>  2.002\<newline>''\<rparr>) \<and>
   example_format ''{elapsed:7.3f}\<newline>'' (1001 / 500) = Inr ''  2.002\<newline>''"
proof -
  let ?t = "\<lparr>msg = Some ''{elapsed:7.3f}\<newline>'', barrier = None, start_time = Some 100,
             end_time = None\<rparr>"
  let ?w = "\<lparr>now = 51001 / 500, stdout = ''>''\<rparr>"
  let ?t1 = "\<lparr>msg = Some ''{elapsed:7.3f}\<newline>'', barrier = None, start_time = Some 100,
              end_time = Some (51001 / 500)\<rparr>"
  let ?w1 = "\<lparr>now = 51001 / 500, stdout = ''>  2.002\<newline>''\<rparr>"
  have a: "toc example_format ?t ?w = (Inr (), ?t1, ?w1)"
    unfolding example_format_def
    using toc_report [where t = ?t and w = ?w and s = 100]
    by simp
  from a toc_report [where fmt = example_format and t = ?t and w = ?w and ?t1.0 = ?t1
      and ?w1.0 = ?w1]
  have "example_format ''{elapsed:7.3f}\<newline>'' (1001 / 500) = Inr ''  2.002\<newline>''"
    by (auto simp: call_barrier_def)
  with a show ?thesis by simp
qed

section \<open>The timer as a context manager\<close>

text \<open>
  C4, as amended. \<^verbatim>\<open>__enter__\<close> is \<open>tic\<close> and \<^verbatim>\<open>__exit__\<close> is \<open>toc\<close>, whose result the
  with statement reads as false. When \<open>tic\<close> raises, the block does not run and the
  exception of \<open>tic\<close> is the outcome. When \<open>tic\<close> returns, \<open>toc\<close> runs on the timer and the
  world the block left, whether the block returned or raised, and the with statement
  ends in the state \<open>toc\<close> left (sample stored, report printed); its outcome is the
  exception of \<open>toc\<close> when \<open>toc\<close> raises, and the outcome of the block (its exception when
  it raised) when \<open>toc\<close> returns.
\<close>

theorem with_runs_toc_on_exit:
  "dunder_enter t w = tic t w \<and>
   dunder_exit fmt t exc w =
     (case toc fmt t w of (r, t1, w1) \<Rightarrow> (map_sum id (\<lambda>u. False) r, t1, w1)) \<and>
   (tic t w = (Inl e, t1, w1) \<longrightarrow> with_stmt fmt t body w = (Inl e, t1, w1)) \<and>
   (tic t w = (Inr (), t1, w1) \<and> body t1 w1 = (rb, t2, w2) \<and> toc fmt t2 w2 = (rs, t3, w3) \<longrightarrow>
      with_stmt fmt t body w = ((case rs of Inl e \<Rightarrow> Inl e | Inr u \<Rightarrow> rb), t3, w3))"
proof (intro conjI impI)
  show "dunder_enter t w = tic t w"
    by (simp add: dunder_enter_def)
  show "dunder_exit fmt t exc w =
     (case toc fmt t w of (r, t1, w1) \<Rightarrow> (map_sum id (\<lambda>u. False) r, t1, w1))"
    by (simp add: dunder_exit_def split: prod.splits sum.splits)
  show "with_stmt fmt t body w = (Inl e, t1, w1)" if "tic t w = (Inl e, t1, w1)"
    using that by (simp add: with_stmt_def dunder_enter_def)
  show "with_stmt fmt t body w = ((case rs of Inl e \<Rightarrow> Inl e | Inr u \<Rightarrow> rb), t3, w3)"
    if "tic t w = (Inr (), t1, w1) \<and> body t1 w1 = (rb, t2, w2) \<and> toc fmt t2 w2 = (rs, t3, w3)"
    using that with_stmt_cases by blast
qed

text \<open>
  \<^verbatim>\<open>with TicToc(): ...\<close> around a block that takes two seconds and raises: the report is
  printed and the exception of the block is the outcome. With a barrier that raises, the
  block is not entered.
\<close>

theorem with_runs_toc_on_exit_witness:
  "with_stmt example_format new_default raising_block \<lparr>now = 0, stdout = []\<rparr> =
   (Inl (ValueError ''block''),
    \<lparr>msg = Some default_msg, barrier = None, start_time = Some 0, end_time = Some 2\<rparr>,
    \<lparr>now = 2, stdout = ''Elapsed time is 2.000000 seconds.\<newline>''\<rparr>) \<and>
   with_stmt example_format (dunder_init None (Some failing_barrier)) raising_block
     \<lparr>now = 0, stdout = []\<rparr> =
   (Inl (Exception ''barrier''), dunder_init None (Some failing_barrier),
    \<lparr>now = 0, stdout = []\<rparr>)"
proof -
  let ?w = "\<lparr>now = 0, stdout = []\<rparr>"
  let ?t1 = "\<lparr>msg = Some default_msg, barrier = None, start_time = Some 0, end_time = None\<rparr>"
  let ?w2 = "\<lparr>now = 2, stdout = []\<rparr>"
  let ?t3 = "\<lparr>msg = Some default_msg, barrier = None, start_time = Some 0,
              end_time = Some 2\<rparr>"
  let ?w3 = "\<lparr>now = 2, stdout = ''Elapsed time is 2.000000 seconds.\<newline>''\<rparr>"
  have a: "tic new_default ?w = (Inr (), ?t1, ?w)"
    by (simp add: new_default_def dunder_init_def tic_def reset_eq call_barrier_def
        time_time_def)
  have b: "raising_block ?t1 ?w = (Inl (ValueError ''block''), ?t1, ?w2)"
    by (simp add: raising_block_def advance_def)
  have m: "default_msg \<noteq> []"
    by (simp add: default_msg_def)
  have c: "toc example_format ?t1 ?w2 = (Inr (), ?t3, ?w3)"
    by (simp add: toc_def is_started_def call_barrier_def Let_def elapsed_def is_started_def is_ended_def time_time_def
        print_end_def example_format_def str_format_default_msg format_f_two m)
  have d: "tic (dunder_init None (Some failing_barrier)) ?w =
      (Inl (Exception ''barrier''), dunder_init None (Some failing_barrier), ?w)"
    by (simp add: dunder_init_def tic_def reset_eq call_barrier_def failing_barrier_def)
  from a b c
    with_runs_toc_on_exit [where t = new_default and w = ?w and ?t1.0 = ?t1 and ?w1.0 = ?w
      and body = raising_block and rb = "Inl (ValueError ''block'')" and ?t2.0 = ?t1
      and ?w2.0 = ?w2 and fmt = example_format and rs = "Inr ()" and ?t3.0 = ?t3
      and ?w3.0 = ?w3]
  have "with_stmt example_format new_default raising_block ?w =
      (Inl (ValueError ''block''), ?t3, ?w3)"
    by simp
  moreover from d
    with_runs_toc_on_exit [where t = "dunder_init None (Some failing_barrier)" and w = ?w
      and e = "Exception ''barrier''" and ?t1.0 = "dunder_init None (Some failing_barrier)"
      and ?w1.0 = ?w and body = raising_block and fmt = example_format]
  have "with_stmt example_format (dunder_init None (Some failing_barrier)) raising_block ?w =
      (Inl (Exception ''barrier''), dunder_init None (Some failing_barrier), ?w)"
    by simp
  ultimately show ?thesis by simp
qed

text \<open>
  C4 as stated fails: a timer whose barrier works at the start and raises two seconds
  later, around a block that raises \<open>ValueError\<close>. \<open>toc\<close> runs but stores no \<open>end_time\<close>
  and prints nothing, and the outcome is the exception of the barrier, not the block's.
\<close>

theorem with_block_error_lost_counterexample:
  "with_stmt example_format (dunder_init (Some default_msg) (Some failing_late)) raising_block
     \<lparr>now = 0, stdout = []\<rparr> =
   (Inl (Exception ''barrier''),
    \<lparr>msg = Some default_msg, barrier = Some failing_late, start_time = Some 0, end_time = None\<rparr>,
    \<lparr>now = 2, stdout = []\<rparr>) \<and>
   fst (raising_block
     \<lparr>msg = Some default_msg, barrier = Some failing_late, start_time = Some 0, end_time = None\<rparr>
     \<lparr>now = 0, stdout = []\<rparr>) = Inl (ValueError ''block'')"
  by (simp add: with_stmt_def dunder_enter_def dunder_exit_def tic_def toc_def reset_eq
      call_barrier_def dunder_init_def failing_late_def raising_block_def advance_def
      time_time_def is_started_def)

section \<open>The order of the samples along a run\<close>

text \<open>
  C6, as amended. Take a timer as constructed, with a barrier that leaves the samples of
  the timer as they are (in particular any barrier without access to the timer), and any
  sequence of calls of its methods and properties, with time passing in between, where
  the clock never goes back (not between calls, and not inside the barrier). In the
  state reached, if \<open>end_time\<close> is present then \<open>start_time\<close> is present and is not
  later, so the elapsed time is their difference and is not negative. In particular a
  \<open>tic\<close> from that state followed, after any time \<open>d\<close>, by a \<open>toc\<close> gives an elapsed time
  that is not negative.
\<close>

theorem samples_ordered:
  assumes "\<forall>ev\<in>set evs. forward ev" and "keeps_clock c" and "keeps_samples c"
    and "run fmt c evs (dunder_init m b, w) = (t, w1)"
  shows "(\<forall>e. end_time t = Some e \<longrightarrow>
            (\<exists>s. start_time t = Some s \<and> s \<le> e \<and> (\<forall>w'. elapsed t w' = Inr (e - s)))) \<and>
         (0 \<le> d \<and> tic_closure c t w1 = (Inr (), t2, w2) \<and>
          toc_closure fmt c t2 (advance d w2) = (Inr (), t3, w3) \<longrightarrow>
            (\<exists>x. (\<forall>w'. elapsed t3 w' = Inr x) \<and> 0 \<le> x))"
proof (intro conjI allI impI)
  have inv: "timer_inv (t, w1)"
    using run_inv [OF assms(2,3) init_inv assms(1), of fmt m b w] assms(4) by simp
  {
    fix e
    assume "end_time t = Some e"
    with inv show "\<exists>s. start_time t = Some s \<and> s \<le> e \<and> (\<forall>w'. elapsed t w' = Inr (e - s))"
      by (auto simp: timer_inv_def sample_order_def elapsed_def is_started_def is_ended_def
          split: option.splits)
  }
  assume h: "0 \<le> d \<and> tic_closure c t w1 = (Inr (), t2, w2) \<and>
          toc_closure fmt c t2 (advance d w2) = (Inr (), t3, w3)"
  then obtain t1 where
    t2: "t2 = t1\<lparr>start_time := Some (now w2)\<rparr>"
    using tic_closure_Inr [of c t w1 "()" t2 w2] by auto
  from h obtain t4 wb where
    k: "call_closure c t2 (advance d w2) = (Inr (), t4, wb)"
       "t3 = t4\<lparr>end_time := Some (now wb)\<rparr>"
    using toc_closure_Inr [of fmt c t2 "advance d w2" "()" t3 w3] by auto
  from call_closure_keeps [OF assms(2,3) k(1)] t2
  have le: "now w2 + d \<le> now wb" and s: "start_time t4 = Some (now w2)"
    by (simp_all add: advance_def)
  from le h have "0 \<le> now wb - now w2"
    by simp
  moreover from s k(2) have "elapsed t3 w' = Inr (now wb - now w2)" for w'
    by (simp add: elapsed_def is_started_def is_ended_def)
  ultimately show "\<exists>x. (\<forall>w'. elapsed t3 w' = Inr x) \<and> 0 \<le> x"
    by blast
qed

text \<open>
  A timer with the default template and a barrier that waits a second and has no access
  to the timer: a \<open>toc\<close> too early, a measurement, a conversion to a string, a second
  measurement through \<^verbatim>\<open>__exit__\<close>; then one more \<open>tic\<close>, a second, and \<open>toc\<close>.
\<close>

theorem samples_ordered_witness:
  "list_all forward
     [Call Toc, Call Tic, Pass 2, Call Toc, Call Str, Pass 1, Call Tic, Pass 1, Call Exit] \<and>
   run example_format (Some (lift_barrier waiting_barrier))
     [Call Toc, Call Tic, Pass 2, Call Toc, Call Str, Pass 1, Call Tic, Pass 1, Call Exit]
     (dunder_init (Some default_msg) (Some waiting_barrier), \<lparr>now = 0, stdout = []\<rparr>) =
   (\<lparr>msg = Some default_msg, barrier = Some waiting_barrier, start_time = Some 6,
      end_time = Some 8\<rparr>,
    \<lparr>now = 8, stdout = ''Elapsed time is 3.000000 seconds.\<newline>'' @
                       ''Elapsed time is 2.000000 seconds.\<newline>''\<rparr>) \<and>
   elapsed \<lparr>msg = Some default_msg, barrier = Some waiting_barrier, start_time = Some 6,
             end_time = Some 8\<rparr> \<lparr>now = 20, stdout = []\<rparr> = Inr 2 \<and>
   (\<exists>x. elapsed \<lparr>msg = Some default_msg, barrier = Some waiting_barrier, start_time = Some 9,
                  end_time = Some 11\<rparr> \<lparr>now = 20, stdout = []\<rparr> = Inr x \<and> 0 \<le> x)"
proof -
  let ?evs = "[Call Toc, Call Tic, Pass 2, Call Toc, Call Str, Pass 1, Call Tic, Pass 1,
               Call Exit]"
  let ?c = "Some (lift_barrier waiting_barrier)"
  let ?t = "\<lparr>msg = Some default_msg, barrier = Some waiting_barrier, start_time = Some 6,
             end_time = Some 8\<rparr>"
  let ?out = "''Elapsed time is 3.000000 seconds.\<newline>'' @
              ''Elapsed time is 2.000000 seconds.\<newline>''"
  let ?w1 = "\<lparr>now = 8, stdout = ?out\<rparr>"
  let ?t2 = "\<lparr>msg = Some default_msg, barrier = Some waiting_barrier, start_time = Some 9,
              end_time = None\<rparr>"
  let ?w2 = "\<lparr>now = 9, stdout = ?out\<rparr>"
  let ?t3 = "\<lparr>msg = Some default_msg, barrier = Some waiting_barrier, start_time = Some 9,
              end_time = Some 11\<rparr>"
  let ?w3 = "\<lparr>now = 11, stdout = ?out @ ''Elapsed time is 2.000000 seconds.\<newline>''\<rparr>"
  have f: "\<forall>ev\<in>set ?evs. forward ev"
    by simp
  have k: "keeps_clock ?c"
    by (simp add: keeps_clock_def lift_barrier_def waiting_barrier_def advance_def)
  have l: "keeps_samples ?c"
    by (simp add: keeps_samples_def lift_barrier_def waiting_barrier_def)
  have m: "default_msg \<noteq> []"
    by (simp add: default_msg_def)
  have r: "run example_format ?c ?evs
      (dunder_init (Some default_msg) (Some waiting_barrier), \<lparr>now = 0, stdout = []\<rparr>) =
      (?t, ?w1)"
    by (simp add: dunder_init_def tic_closure_def toc_closure_def reset_eq call_closure_def
        lift_barrier_def waiting_barrier_def advance_def time_time_def is_started_def Let_def
        elapsed_def is_ended_def print_end_def example_format_def str_format_default_msg
        format_f_two format_f_three m)
  have a: "tic_closure ?c ?t ?w1 = (Inr (), ?t2, ?w2)"
    by (simp add: tic_closure_def reset_eq call_closure_def lift_barrier_def
        waiting_barrier_def advance_def time_time_def)
  have b: "toc_closure example_format ?c ?t2 (advance 1 ?w2) = (Inr (), ?t3, ?w3)"
    by (simp add: toc_closure_def call_closure_def lift_barrier_def waiting_barrier_def
        advance_def time_time_def is_started_def Let_def elapsed_def is_ended_def print_end_def
        example_format_def str_format_default_msg format_f_two m)
  from a b
    samples_ordered [OF f k l r, where d = 1 and ?t2.0 = ?t2 and ?w2.0 = ?w2 and ?t3.0 = ?t3
      and ?w3.0 = ?w3]
  have "elapsed ?t \<lparr>now = 20, stdout = []\<rparr> = Inr 2"
    and "\<exists>x. elapsed ?t3 \<lparr>now = 20, stdout = []\<rparr> = Inr x \<and> 0 \<le> x"
    by auto
  with f r show ?thesis
    by (simp add: list_all_iff)
qed

text \<open>
  C6 as stated fails: \<^verbatim>\<open>t = TicToc(None, barrier=lambda: t.reset())\<close>, then \<^verbatim>\<open>t.tic()\<close>
  and \<^verbatim>\<open>t.toc()\<close> at clock 4. \<open>toc\<close> finds the timer started, the barrier deletes
  \<open>start_time\<close>, and \<open>toc\<close> stores \<open>end_time\<close>: the timer is left with \<open>end_time\<close> and
  without \<open>start_time\<close>, and the clock has not gone back.
\<close>

theorem barrier_resets_counterexample:
  "run example_format (Some resetting_barrier) [Call Tic, Call Toc]
     (dunder_init None None, \<lparr>now = 4, stdout = []\<rparr>) =
   (\<lparr>msg = None, barrier = None, start_time = None, end_time = Some 4\<rparr>,
    \<lparr>now = 4, stdout = []\<rparr>) \<and>
   list_all forward [Call Tic, Call Toc] \<and>
   keeps_clock (Some resetting_barrier)"
  by (simp add: dunder_init_def tic_closure_def toc_closure_def call_closure_def
      resetting_barrier_def reset_eq time_time_def is_started_def keeps_clock_def)

section \<open>The functions of the module\<close>

text \<open>
  C7. The module holds one timer, constructed at load time with the default template and
  no barrier, and its functions \<open>tic\<close> and \<open>toc\<close> are the methods of that timer. A
  measurement through them gives the same results, the same timer and the same output
  as one through a timer constructed with the default template and no barrier; with the
  model of \<^verbatim>\<open>str.format\<close>, both print the default message with the time that passed.
\<close>

theorem module_tic_toc_default:
  "tictoc module_load = dunder_init (Some default_msg) None \<and>
   module_tic mo w = (case tic (tictoc mo) w of (r, t1, w1) \<Rightarrow> (r, \<lparr>tictoc = t1\<rparr>, w1)) \<and>
   module_toc fmt mo w = (case toc fmt (tictoc mo) w of (r, t1, w1) \<Rightarrow> (r, \<lparr>tictoc = t1\<rparr>, w1)) \<and>
   convenience_session fmt d w = explicit_session fmt d w \<and>
   convenience_session (str_format other) d w =
     (Inr (), Inr (),
      \<lparr>msg = Some default_msg, barrier = None, start_time = Some (now w),
        end_time = Some (now w + d)\<rparr>,
      \<lparr>now = now w + d,
        stdout = stdout w @ ''Elapsed time is '' @ format_f None None d @ '' seconds.\<newline>''\<rparr>)"
proof (intro conjI)
  show "tictoc module_load = dunder_init (Some default_msg) None"
    by (simp add: module_load_def new_default_def)
  show "module_tic mo w = (case tic (tictoc mo) w of (r, t1, w1) \<Rightarrow> (r, \<lparr>tictoc = t1\<rparr>, w1))"
    by (cases mo) (simp add: module_tic_def split: prod.splits)
  show "module_toc fmt mo w =
      (case toc fmt (tictoc mo) w of (r, t1, w1) \<Rightarrow> (r, \<lparr>tictoc = t1\<rparr>, w1))"
    by (cases mo) (simp add: module_toc_def split: prod.splits)
  show eq: "convenience_session fmt d w = explicit_session fmt d w" for fmt
    by (simp add: convenience_session_def explicit_session_def module_tic_def module_toc_def
        module_load_def new_default_def default_msg_def split: prod.splits)
  have t: "tic (dunder_init (Some default_msg) None) w =
      (Inr (), \<lparr>msg = Some default_msg, barrier = None, start_time = Some (now w),
                end_time = None\<rparr>, w)"
    by (simp add: tic_def reset_eq call_barrier_def dunder_init_def time_time_def)
  have m: "default_msg \<noteq> []"
    by (simp add: default_msg_def)
  have "explicit_session (str_format other) d w =
     (Inr (), Inr (),
      \<lparr>msg = Some default_msg, barrier = None, start_time = Some (now w),
        end_time = Some (now w + d)\<rparr>,
      \<lparr>now = now w + d,
        stdout = stdout w @ ''Elapsed time is '' @ format_f None None d @ '' seconds.\<newline>''\<rparr>)"
    unfolding explicit_session_def default_msg_def [symmetric] t
    by (simp add: toc_def is_started_def call_barrier_def Let_def elapsed_def is_started_def is_ended_def time_time_def
        print_end_def advance_def str_format_default_msg m)
  then show "convenience_session (str_format other) d w =
     (Inr (), Inr (),
      \<lparr>msg = Some default_msg, barrier = None, start_time = Some (now w),
        end_time = Some (now w + d)\<rparr>,
      \<lparr>now = now w + d,
        stdout = stdout w @ ''Elapsed time is '' @ format_f None None d @ '' seconds.\<newline>''\<rparr>)"
    by (simp only: eq)
qed

text \<open>The module loaded at clock 5, and two seconds between \<open>tic()\<close> and \<open>toc()\<close>.\<close>

theorem module_tic_toc_default_witness:
  "convenience_session example_format 2 \<lparr>now = 5, stdout = []\<rparr> =
   (Inr (), Inr (),
    \<lparr>msg = Some default_msg, barrier = None, start_time = Some 5, end_time = Some 7\<rparr>,
    \<lparr>now = 7, stdout = ''Elapsed time is 2.000000 seconds.\<newline>''\<rparr>) \<and>
   explicit_session example_format 2 \<lparr>now = 5, stdout = []\<rparr> =
   (Inr (), Inr (),
    \<lparr>msg = Some default_msg, barrier = None, start_time = Some 5, end_time = Some 7\<rparr>,
    \<lparr>now = 7, stdout = ''Elapsed time is 2.000000 seconds.\<newline>''\<rparr>)"
proof -
  note th = module_tic_toc_default [where d = 2 and w = "\<lparr>now = 5, stdout = []\<rparr>"
      and mo = module_load and fmt = example_format
      and other = "\<lambda>m x. Inl (ValueError ''template outside the model'')"]
  from th have eq: "convenience_session example_format 2 \<lparr>now = 5, stdout = []\<rparr> =
      explicit_session example_format 2 \<lparr>now = 5, stdout = []\<rparr>"
    by blast
  from th [THEN conjunct2, THEN conjunct2, THEN conjunct2, THEN conjunct2]
  have "convenience_session example_format 2 \<lparr>now = 5, stdout = []\<rparr> =
      (Inr (), Inr (),
       \<lparr>msg = Some default_msg, barrier = None, start_time = Some 5, end_time = Some 7\<rparr>,
       \<lparr>now = 7, stdout = ''Elapsed time is 2.000000 seconds.\<newline>''\<rparr>)"
    unfolding example_format_def by (simp add: format_f_two)
  with eq show ?thesis
    by simp
qed

section \<open>The conversion to a string\<close>

text \<open>
  C8. With the model of \<^verbatim>\<open>str.format\<close>, \<^verbatim>\<open>__str__\<close> never raises. On a timer without
  \<open>start_time\<close> it gives "Timer not yet started."; on a started timer it gives the
  default template formatted with the elapsed time of that moment, without the newline
  at its end. It assigns nothing.
\<close>

theorem str_never_raises:
  "dunder_str (str_format other) t w =
   Inr (case start_time t of
          None \<Rightarrow> ''Timer not yet started.''
        | Some s \<Rightarrow>
            ''Elapsed time is '' @
            format_f None None (case end_time t of Some e \<Rightarrow> e - s | None \<Rightarrow> now w - s) @
            '' seconds.'') \<and>
   (case elapsed t w of
      Inl e \<Rightarrow> dunder_str (str_format other) t w = Inr ''Timer not yet started.''
    | Inr x \<Rightarrow>
        (\<exists>full. str_format other default_msg x = Inr full \<and>
           dunder_str (str_format other) t w = Inr (rstrip CHR ''\<newline>'' full)))"
proof (cases "start_time t")
  case None
  then show ?thesis by (simp add: dunder_str_def is_started_def elapsed_def is_started_def is_ended_def)
next
  case (Some s)
  define x where "x = (case end_time t of Some e \<Rightarrow> e - s | None \<Rightarrow> now w - s)"
  have e: "elapsed t w = Inr x"
    using Some by (simp add: elapsed_def is_started_def is_ended_def x_def time_time_def split: option.splits)
  have "rstrip CHR ''\<newline>'' (''Elapsed time is '' @ format_f None None x @ '' seconds.\<newline>'')
      = ''Elapsed time is '' @ format_f None None x @ '' seconds.''"
    using rstrip_newline [of "CHR ''.''" "CHR ''\<newline>''"
        "''Elapsed time is '' @ format_f None None x @ '' seconds''"]
    by simp
  with Some e show ?thesis
    by (simp add: dunder_str_def is_started_def str_format_default_msg x_def)
qed

text \<open>A fresh timer, and a timer started at 1 seen at clock 3.\<close>

theorem str_never_raises_witness:
  "dunder_str example_format (dunder_init (Some ''{elapsed:7.3f}\<newline>'') None)
     \<lparr>now = 3, stdout = []\<rparr> = Inr ''Timer not yet started.'' \<and>
   dunder_str example_format
     \<lparr>msg = Some ''{elapsed:7.3f}\<newline>'', barrier = None, start_time = Some 1,
       end_time = None\<rparr>
     \<lparr>now = 3, stdout = []\<rparr> = Inr ''Elapsed time is 2.000000 seconds.''"
  unfolding example_format_def
  using
    str_never_raises [where w = "\<lparr>now = 3, stdout = []\<rparr>"
      and t = "dunder_init (Some ''{elapsed:7.3f}\<newline>'') None"
      and other = "\<lambda>m x. Inl (ValueError ''template outside the model'')"]
    str_never_raises [where w = "\<lparr>now = 3, stdout = []\<rparr>"
      and t = "\<lparr>msg = Some ''{elapsed:7.3f}\<newline>'', barrier = None, start_time = Some 1,
                end_time = None\<rparr>"
      and other = "\<lambda>m x. Inl (ValueError ''template outside the model'')"]
  by (simp add: dunder_init_def format_f_two)

end
